theory Spec2Isabelle
  imports
    Complex_Main
    "HOL-Library.Sublist"
    "HOL-Library.Product_Lexorder"
    "HOL-Library.Char_ord"
    "HOL-Library.List_Lexorder"
begin

section \<open>Data model\<close>

text \<open>
  The dashboard keeps its data in pandas frames. A frame is modelled as the list of its
  rows, in row order. The model follows pandas 2, the version whose idioms the code uses
  (an in-place \<open>fillna\<close> on a selected column).

  A float is minus infinity, a finite number or plus infinity; NaN is the missing value
  \<open>None\<close> of a \<open>float option\<close>. Finite floats are idealised as rationals: rounding is
  outside the model.
\<close>

datatype float = MInf | Fin rat | PInf

instantiation float :: linorder
begin

fun less_eq_float :: "float \<Rightarrow> float \<Rightarrow> bool" where
  "less_eq_float MInf y = True"
| "less_eq_float (Fin a) MInf = False"
| "less_eq_float (Fin a) (Fin b) = (a \<le> b)"
| "less_eq_float (Fin a) PInf = True"
| "less_eq_float PInf PInf = True"
| "less_eq_float PInf y = False"

definition less_float :: "float \<Rightarrow> float \<Rightarrow> bool" where
  "less_float x y = (x \<le> y \<and> \<not> y \<le> x)"

instance
proof
  fix x y z :: float
  show "(x < y) = (x \<le> y \<and> \<not> y \<le> x)" by (simp add: less_float_def)
  show "x \<le> x" by (cases x) simp_all
  show "x \<le> y \<Longrightarrow> y \<le> z \<Longrightarrow> x \<le> z" by (cases x; cases y; cases z) simp_all
  show "x \<le> y \<Longrightarrow> y \<le> x \<Longrightarrow> x = y" by (cases x; cases y) simp_all
  show "x \<le> y \<or> y \<le> x" by (cases x; cases y) auto
qed

end

text \<open>Float addition (NaN for the sum of the two infinities) and division by a positive
  finite number.\<close>

fun fadd :: "float \<Rightarrow> float \<Rightarrow> float option" where
  "fadd (Fin a) (Fin b) = Some (Fin (a + b))"
| "fadd PInf MInf = None"
| "fadd MInf PInf = None"
| "fadd PInf y = Some PInf"
| "fadd x PInf = Some PInf"
| "fadd MInf y = Some MInf"
| "fadd x MInf = Some MInf"

fun fdiv :: "float \<Rightarrow> rat \<Rightarrow> float" where
  "fdiv (Fin a) n = Fin (a / n)"
| "fdiv x n = x"

text \<open>
  A cell of a numeric-looking column of the raw frame is missing (\<open>NaN\<close>), an integer,
  a float or a string. \<open>read_csv\<close> yields strings for a column as soon as one field does
  not parse as a number; read in chunks, a column can hold integers from one chunk and
  strings from another. Text columns hold a string or are missing. A string is the list
  of its code points; code points beyond 255 are outside the model.
\<close>

datatype cell = NaN | Integer int | Num float | Str string

text \<open>A calendar date is (year, month, day), ordered lexicographically, which is the
  chronological order Python's \<open>datetime.date\<close> comparison uses.\<close>

type_synonym date = "int \<times> nat \<times> nat"

datatype timestamp = Timestamp (dt_date: date) (dt_nanos: nat)

definition dt_year :: "timestamp \<Rightarrow> int" where
  "dt_year t = fst (dt_date t)"

definition dt_month :: "timestamp \<Rightarrow> nat" where
  "dt_month t = fst (snd (dt_date t))"

record raw_row =
  raw_app_name :: "string option"
  raw_app_category :: "string option"
  raw_review_text :: "string option"
  raw_rating :: cell
  raw_user_age :: cell
  raw_user_country :: "string option"
  raw_user_gender :: "string option"
  raw_app_version :: "string option"
  raw_num_helpful_votes :: cell
  raw_review_date :: "string option"
  raw_review_language :: "string option"

text \<open>A row of the cleaned frame. \<open>rating\<close> is a float column (\<open>None\<close> is NaN),
  \<open>user_age\<close> and \<open>num_helpful_votes\<close> are int64 columns after \<open>astype(int)\<close>,
  \<open>review_date\<close> is a datetime column (\<open>None\<close> is NaT), \<open>app_version\<close> is a
  column of \<open>str\<close> after \<open>astype(str)\<close>.\<close>

record review =
  app_name :: "string option"
  app_category :: "string option"
  review_text :: "string option"
  rating :: "float option"
  user_age :: int
  user_country :: "string option"
  user_gender :: "string option"
  app_version :: string
  num_helpful_votes :: int
  review_date :: "timestamp option"
  review_language :: "string option"

record enriched = review +
  review_length :: "nat option"
  review_word_count :: "nat option"
  review_year :: "int option"
  review_month :: "nat option"
  rating_category :: "string option"
  age_group :: "string option"

datatype error = TypeError | ValueError | OverflowError

section \<open>The pandas operations the program calls\<close>

text \<open>
  How pandas and Python read a string is not part of this repository; the readings are
  parameters of the model:
  \<^item> \<open>num_of_str\<close>: the float \<open>pd.to_numeric(errors='coerce')\<close> gives for a string,
    \<open>None\<close> (NaN) for a string it cannot read;
  \<^item> \<open>float_of_str\<close>: Python's \<open>float(s)\<close>, which numpy uses to cast an object column to
    floats: \<open>None\<close> when it raises, \<open>Some None\<close> for NaN;
  \<^item> \<open>int_of_str\<close>: Python's \<open>int(s)\<close>, \<open>None\<close> when it raises;
  \<^item> \<open>ts_of_str\<close>: the timestamp \<open>pd.to_datetime(errors='coerce')\<close> gives for a string
    of a column whose first string is given (pandas 2 takes the format of the column
    from its first string), \<open>None\<close> (NaT) for a string it cannot read.
\<close>

record readings =
  num_of_str :: "string \<Rightarrow> float option"
  float_of_str :: "string \<Rightarrow> float option option"
  int_of_str :: "string \<Rightarrow> int option"
  ts_of_str :: "string option \<Rightarrow> string \<Rightarrow> timestamp option"

text \<open>\<open>pd.to_numeric(col, errors='coerce')\<close>, cell by cell.\<close>

definition to_numeric :: "readings \<Rightarrow> cell \<Rightarrow> float option" where
  "to_numeric rd c =
     (case c of NaN \<Rightarrow> None | Integer n \<Rightarrow> Some (Fin (of_int n)) | Num x \<Rightarrow> Some x
              | Str s \<Rightarrow> num_of_str rd s)"

text \<open>\<open>Series.fillna(v)\<close>, cell by cell; filling with NaN leaves the cell missing. The
  first form is for a float column, the second for a raw column.\<close>

definition fillna :: "'a option \<Rightarrow> 'a option \<Rightarrow> 'a option" where
  "fillna v c = (case c of None \<Rightarrow> v | Some x \<Rightarrow> Some x)"

definition fillna_cell :: "float option \<Rightarrow> cell \<Rightarrow> cell" where
  "fillna_cell v c = (case c of NaN \<Rightarrow> (case v of None \<Rightarrow> NaN | Some x \<Rightarrow> Num x) | _ \<Rightarrow> c)"

definition is_str :: "cell \<Rightarrow> bool" where
  "is_str c = (case c of Str s \<Rightarrow> True | _ \<Rightarrow> False)"

definition is_int :: "cell \<Rightarrow> bool" where
  "is_int c = (case c of Integer n \<Rightarrow> True | _ \<Rightarrow> False)"

definition is_number :: "cell \<Rightarrow> bool" where
  "is_number c = (case c of Integer n \<Rightarrow> True | Num x \<Rightarrow> True | _ \<Rightarrow> False)"

text \<open>The float of a cell that is not a string.\<close>

definition cell_float :: "cell \<Rightarrow> float option" where
  "cell_float c = (case c of Integer n \<Rightarrow> Some (Fin (of_int n)) | Num x \<Rightarrow> Some x | _ \<Rightarrow> None)"

text \<open>
  The values a numeric reduction (\<open>Series.median\<close>) works on. \<open>nanmedian\<close> refuses
  with a \<open>TypeError\<close> a column of objects that \<open>infer_dtype\<close> calls \<open>string\<close> or
  \<open>mixed\<close>: a column with a string and no integer. Any other column is cast to floats
  with \<open>astype('f8')\<close>, which reads a string with \<open>float\<close>; its \<open>ValueError\<close> is raised
  again as a \<open>TypeError\<close>.
\<close>

definition cell_f8 :: "readings \<Rightarrow> cell \<Rightarrow> error + float option" where
  "cell_f8 rd c =
     (case c of
        NaN \<Rightarrow> Inr None
      | Integer n \<Rightarrow> Inr (Some (Fin (of_int n)))
      | Num x \<Rightarrow> Inr (Some x)
      | Str s \<Rightarrow> (case float_of_str rd s of None \<Rightarrow> Inl TypeError | Some v \<Rightarrow> Inr v))"

text \<open>A cast of a column runs through its elements and stops at the first that fails.\<close>

fun collect :: "(error + 'a) list \<Rightarrow> error + 'a list" where
  "collect [] = Inr []"
| "collect (Inl e # xs) = Inl e"
| "collect (Inr v # xs) = (case collect xs of Inl e \<Rightarrow> Inl e | Inr vs \<Rightarrow> Inr (v # vs))"

definition float_values :: "readings \<Rightarrow> cell list \<Rightarrow> error + float option list" where
  "float_values rd col =
     (if list_ex is_str col \<and> \<not> list_ex is_int col then Inl TypeError
      else collect (map (cell_f8 rd) col))"

text \<open>The values that are present in a column (\<open>skipna=True\<close>).\<close>

fun present :: "'a option list \<Rightarrow> 'a list" where
  "present [] = []"
| "present (None # cs) = present cs"
| "present (Some x # cs) = x # present cs"

text \<open>\<open>nanmedian\<close>: NaN for a column with no value present, the middle value of the sorted
  values, or the mean of the two middle ones (NaN when they are the two infinities).\<close>

definition median :: "float option list \<Rightarrow> float option" where
  "median col =
     (let vs = sort (present col); n = length vs in
      if n = 0 then None
      else if odd n then Some (vs ! (n div 2))
      else map_option (\<lambda>s. fdiv s 2) (fadd (vs ! (n div 2 - 1)) (vs ! (n div 2))))"

definition series_median :: "readings \<Rightarrow> cell list \<Rightarrow> error + float option" where
  "series_median rd col =
     (case float_values rd col of Inl e \<Rightarrow> Inl e | Inr vs \<Rightarrow> Inr (median vs))"

text \<open>
  \<open>astype(int)\<close>. On a float column: truncation towards zero; a NaN or an infinity raises
  (\<open>IntCastingNaNError\<close>, a \<open>ValueError\<close>); numpy turns a float beyond the range of int64
  into the least int64 without an error. On a column of objects that holds a string,
  numpy converts element by element as Python's \<open>int\<close> does.
\<close>

definition trunc :: "rat \<Rightarrow> int" where
  "trunc q = (if 0 \<le> q then \<lfloor>q\<rfloor> else \<lceil>q\<rceil>)"

definition in_int64 :: "int \<Rightarrow> bool" where
  "in_int64 n = (- (2 ^ 63) \<le> n \<and> n < 2 ^ 63)"

definition float_to_int :: "float option \<Rightarrow> error + int" where
  "float_to_int v =
     (case v of
        Some (Fin q) \<Rightarrow> Inr (if in_int64 (trunc q) then trunc q else - (2 ^ 63))
      | _ \<Rightarrow> Inl ValueError)"

definition object_to_int :: "readings \<Rightarrow> cell \<Rightarrow> error + int" where
  "object_to_int rd c =
     (case c of
        NaN \<Rightarrow> Inl ValueError
      | Integer n \<Rightarrow> (if in_int64 n then Inr n else Inl OverflowError)
      | Num x \<Rightarrow> (case x of Fin q \<Rightarrow> (if in_int64 (trunc q) then Inr (trunc q) else Inl OverflowError)
                            | _ \<Rightarrow> Inl OverflowError)
      | Str s \<Rightarrow> (case int_of_str rd s of
                    None \<Rightarrow> Inl ValueError
                  | Some n \<Rightarrow> (if in_int64 n then Inr n else Inl OverflowError)))"

definition astype_int :: "readings \<Rightarrow> cell list \<Rightarrow> error + int list" where
  "astype_int rd col =
     (if list_ex is_str col then collect (map (object_to_int rd) col)
      else collect (map (\<lambda>c. float_to_int (cell_float c)) col))"

text \<open>\<open>pd.to_datetime(col, errors='coerce')\<close>: a missing or unparseable cell becomes NaT.\<close>

fun first_present :: "'a option list \<Rightarrow> 'a option" where
  "first_present [] = None"
| "first_present (None # cs) = first_present cs"
| "first_present (Some x # cs) = Some x"

definition to_datetime :: "readings \<Rightarrow> string option list \<Rightarrow> string option \<Rightarrow> timestamp option" where
  "to_datetime rd col c = (case c of None \<Rightarrow> None | Some s \<Rightarrow> ts_of_str rd (first_present col) s)"

text \<open>\<open>astype(str)\<close> on a text column: a cell that is still missing becomes the string
  \<open>nan\<close>. \<open>str.lstrip('v')\<close> removes every leading \<open>v\<close>.\<close>

definition astype_str :: "string option \<Rightarrow> string" where
  "astype_str c = (case c of None \<Rightarrow> ''nan'' | Some s \<Rightarrow> s)"

definition lstrip :: "char \<Rightarrow> string \<Rightarrow> string" where
  "lstrip ch s = dropWhile (\<lambda>c. c = ch) s"

section \<open>The Cleaner\<close>

text \<open>
  \<open>clean_data\<close>, line by line. Each assignment computes one column of the surviving
  rows; the frame is put together again at the end.
  \<^item> \<open>dropna(subset=['review_text'])\<close> keeps the rows whose text is present.
  \<^item> The rating column is coerced, and filled with the median of the column
    \<^emph>\<open>as it was before the coercion\<close>: the argument of \<open>fillna\<close> is
    \<open>df_clean['rating'].median()\<close>.
  \<^item> \<open>user_age\<close> is not coerced: the raw column is filled with its median and cast.
  \<^item> \<open>num_helpful_votes\<close> is coerced, filled with 0 and cast.
  \<^item> \<open>df_clean[col].fillna('Unknown', inplace=True)\<close> fills the column of the frame:
    this is pandas 2 with copy-on-write off; under pandas 3 the statement fills a copy
    and the three columns stay as they were.
\<close>

definition make_review ::
  "readings \<Rightarrow> string option list \<Rightarrow> raw_row \<times> float option \<times> int \<times> int \<Rightarrow> review" where
  "make_review rd date_col x =
     (case x of (r, rt, ag, vt) \<Rightarrow>
       \<lparr> app_name = raw_app_name r,
         app_category = raw_app_category r,
         review_text = raw_review_text r,
         rating = rt,
         user_age = ag,
         user_country = fillna (Some ''Unknown'') (raw_user_country r),
         user_gender = fillna (Some ''Unknown'') (raw_user_gender r),
         app_version = lstrip CHR ''v'' (astype_str (fillna (Some ''Unknown'') (raw_app_version r))),
         num_helpful_votes = vt,
         review_date = to_datetime rd date_col (raw_review_date r),
         review_language = raw_review_language r \<rparr>)"

definition clean_data :: "readings \<Rightarrow> raw_row list \<Rightarrow> error + review list" where
  "clean_data rd df =
     (let df_clean = filter (\<lambda>r. raw_review_text r \<noteq> None) df in
      case series_median rd (map raw_rating df_clean) of
        Inl e \<Rightarrow> Inl e
      | Inr rating_median \<Rightarrow>
          (let rating_col = map (\<lambda>r. fillna rating_median (to_numeric rd (raw_rating r))) df_clean in
           case series_median rd (map raw_user_age df_clean) of
             Inl e \<Rightarrow> Inl e
           | Inr age_median \<Rightarrow>
               (case astype_int rd (map (\<lambda>r. fillna_cell age_median (raw_user_age r)) df_clean) of
                  Inl e \<Rightarrow> Inl e
                | Inr age_col \<Rightarrow>
                    (case collect (map (\<lambda>r. float_to_int (fillna (Some (Fin 0))
                                               (to_numeric rd (raw_num_helpful_votes r)))) df_clean) of
                       Inl e \<Rightarrow> Inl e
                     | Inr votes_col \<Rightarrow>
                         Inr (map (make_review rd (map raw_review_date df_clean))
                               (zip df_clean (zip rating_col (zip age_col votes_col))))))))"

section \<open>The Feature Enricher\<close>

text \<open>\<open>str.split()\<close> with no argument splits at runs of whitespace and yields no empty
  word. The whitespace characters are the code points below 256 that Python's
  \<open>str.isspace\<close> accepts.\<close>

definition is_space :: "char \<Rightarrow> bool" where
  "is_space c = (c \<in> set [CHR 0x20, CHR 0x09, CHR 0x0A, CHR 0x0B, CHR 0x0C, CHR 0x0D,
                            CHR 0x1C, CHR 0x1D, CHR 0x1E, CHR 0x1F, CHR 0x85, CHR 0xA0])"

fun py_split_from :: "string \<Rightarrow> string \<Rightarrow> string list" where
  "py_split_from w [] = (if w = [] then [] else [w])"
| "py_split_from w (c # cs) =
     (if is_space c then (if w = [] then py_split_from [] cs else w # py_split_from [] cs)
      else py_split_from (w @ [c]) cs)"

definition py_split :: "string \<Rightarrow> string list" where
  "py_split s = py_split_from [] s"

text \<open>
  \<open>pd.cut(col, bins, labels, include_lowest=True)\<close> with the default \<open>right=True\<close>.
  pandas finds the bin with \<open>bins.searchsorted(x, side='left')\<close>, the number of edges
  below \<open>x\<close>; a value equal to the first edge is put into the first bin; a value
  with no edge below it or with every edge below it has no bin, and neither has NaN.
\<close>

definition searchsorted_left :: "'a::linorder list \<Rightarrow> 'a \<Rightarrow> nat" where
  "searchsorted_left bins x = length (takeWhile (\<lambda>b. b < x) bins)"

definition pd_cut :: "'a::linorder list \<Rightarrow> string list \<Rightarrow> 'a option \<Rightarrow> string option" where
  "pd_cut bins labels v =
     (case v of
        None \<Rightarrow> None
      | Some x \<Rightarrow>
          (case bins of
             [] \<Rightarrow> None
           | b0 # bs \<Rightarrow>
               (let ids = (if x = b0 then 1 else searchsorted_left bins x) in
                if ids = length bins \<or> ids = 0 then None else Some (labels ! (ids - 1)))))"

definition rating_bins :: "float list" where
  "rating_bins = [Fin 0, Fin (19 / 10), Fin (29 / 10), Fin (39 / 10), Fin (44 / 10), Fin 5]"

definition rating_labels :: "string list" where
  "rating_labels = [''Very Poor'', ''Poor'', ''Average'', ''Good'', ''Excellent'']"

definition age_bins :: "int list" where
  "age_bins = [0, 17, 24, 34, 49, 100]"

definition age_labels :: "string list" where
  "age_labels = [''Teen'', ''Young Adult'', ''Adult'', ''Middle Age'', ''Senior'']"

definition add_features :: "review \<Rightarrow> enriched" where
  "add_features r =
     review.extend r
       (enriched.fields
         (map_option length (review_text r))
         (map_option (\<lambda>s. length (py_split s)) (review_text r))
         (map_option dt_year (review_date r))
         (map_option dt_month (review_date r))
         (pd_cut rating_bins rating_labels (rating r))
         (pd_cut age_bins age_labels (Some (user_age r))))"

definition add_custom_features :: "review list \<Rightarrow> enriched list" where
  "add_custom_features df = map add_features df"

section \<open>The Filter Engine\<close>

text \<open>
  Comparisons of a column with a scalar. The bounds of the rating range are the finite
  floats of the slider; a NaN rating compares false with every bound.
  \<open>review_date.dt.date\<close> is a column of objects; pandas compares it with a date
  element by element and gives False for an element that is NaT.
\<close>

definition rating_between :: "rat \<times> rat \<Rightarrow> float option \<Rightarrow> bool" where
  "rating_between rating_range v =
     (case v of None \<Rightarrow> False
              | Some q \<Rightarrow> Fin (fst rating_range) \<le> q \<and> q \<le> Fin (snd rating_range))"

definition date_between :: "date \<Rightarrow> date \<Rightarrow> timestamp option \<Rightarrow> bool" where
  "date_between start_date end_date v =
     (case v of None \<Rightarrow> False | Some t \<Rightarrow> start_date \<le> dt_date t \<and> dt_date t \<le> end_date)"

text \<open>\<open>filter_dataframe\<close>. \<open>date_range\<close> is the tuple the date widget returns: two dates,
  or fewer while the user is still choosing.\<close>

definition filter_dataframe ::
  "enriched list \<Rightarrow> string \<Rightarrow> string \<Rightarrow> rat \<times> rat \<Rightarrow> date list \<Rightarrow> enriched list" where
  "filter_dataframe df app category rating_range date_range =
     (let filtered_df = df;
          filtered_df = (if app \<noteq> ''All'' then filter (\<lambda>r. app_name r = Some app) filtered_df
                         else filtered_df);
          filtered_df = (if category \<noteq> ''All''
                         then filter (\<lambda>r. app_category r = Some category) filtered_df
                         else filtered_df);
          filtered_df = filter (\<lambda>r. rating_between rating_range (rating r)) filtered_df
      in if length date_range = 2
         then filter (\<lambda>r. date_between (date_range ! 0) (date_range ! 1) (review_date r)) filtered_df
         else filtered_df)"

text \<open>The defaults of the sidebar: every app, every category, the whole slider
  \<open>(1.0, 5.0)\<close>, and the dates from the earliest to the latest known review date.
  With no known date at all the widget has no dates to offer.\<close>

definition known_dates :: "enriched list \<Rightarrow> date list" where
  "known_dates df = map dt_date (present (map review_date df))"

definition widest_rating_range :: "rat \<times> rat" where
  "widest_rating_range = (1, 5)"

definition widest_date_range :: "enriched list \<Rightarrow> date list option" where
  "widest_date_range df =
     (case known_dates df of [] \<Rightarrow> None | d # ds \<Rightarrow> Some [fold min ds d, fold max ds d])"

section \<open>The aggregates of the report\<close>

text \<open>\<open>Series.mean\<close> skips NaN and is NaN on an empty column; the sum of the two
  infinities is NaN.\<close>

fun fsum :: "float list \<Rightarrow> float option" where
  "fsum [] = Some (Fin 0)"
| "fsum (x # xs) = (case fsum xs of None \<Rightarrow> None | Some s \<Rightarrow> fadd x s)"

definition mean :: "float option list \<Rightarrow> float option" where
  "mean col = (let vs = present col in
     if vs = [] then None else map_option (\<lambda>s. fdiv s (of_nat (length vs))) (fsum vs))"

text \<open>\<open>groupby('app_category')['rating'].mean()\<close>: one entry per category that occurs,
  in sorted order; rows without a category belong to no group.\<close>

definition groupby_mean :: "enriched list \<Rightarrow> (string \<times> float option) list" where
  "groupby_mean df =
     map (\<lambda>k. (k, mean (map rating (filter (\<lambda>r. app_category r = Some k) df))))
       (sort (remdups (present (map app_category df))))"

text \<open>\<open>idxmax\<close> and \<open>idxmin\<close>: the label of the first largest (smallest) value that is
  present; NaN when no value is present; a \<open>ValueError\<close> on an empty series.\<close>

fun present_items :: "(string \<times> float option) list \<Rightarrow> (string \<times> float) list" where
  "present_items [] = []"
| "present_items ((k, None) # s) = present_items s"
| "present_items ((k, Some v) # s) = (k, v) # present_items s"

definition idxmax :: "(string \<times> float option) list \<Rightarrow> error + string option" where
  "idxmax s =
     (if s = [] then Inl ValueError
      else case present_items s of
             [] \<Rightarrow> Inr None
           | kv # kvs \<Rightarrow> Inr (Some (fst (fold (\<lambda>x best. if snd best < snd x then x else best) kvs kv))))"

definition idxmin :: "(string \<times> float option) list \<Rightarrow> error + string option" where
  "idxmin s =
     (if s = [] then Inl ValueError
      else case present_items s of
             [] \<Rightarrow> Inr None
           | kv # kvs \<Rightarrow> Inr (Some (fst (fold (\<lambda>x best. if snd x < snd best then x else best) kvs kv))))"

text \<open>
  What \<open>main\<close> computes once the frame is loaded: the view, then either the warning
  "No data matches the selected filters" and an early return, or the insights
  (average rating, best and worst category). A \<open>ValueError\<close> of an aggregate ends the
  run of the script.
\<close>

datatype page = NoData | Insights "float option" "string option" "string option"

definition main_page ::
  "enriched list \<Rightarrow> string \<Rightarrow> string \<Rightarrow> rat \<times> rat \<Rightarrow> date list \<Rightarrow> error + page" where
  "main_page df app category rating_range date_range =
     (let filtered_df = filter_dataframe df app category rating_range date_range in
      if filtered_df = [] then Inr NoData
      else
        (let avg_rating = mean (map rating filtered_df) in
         case idxmax (groupby_mean filtered_df) of
           Inl e \<Rightarrow> Inl e
         | Inr best_category \<Rightarrow>
             (case idxmin (groupby_mean filtered_df) of
                Inl e \<Rightarrow> Inl e
              | Inr worst_category \<Rightarrow> Inr (Insights avg_rating best_category worst_category))))"

section \<open>Notions used in the statements\<close>

text \<open>The rows that survive \<open>dropna\<close>, and the row the Cleaner makes of a surviving row
  once the two medians are known, the kind of the age column (of objects with a string,
  or of numbers) and the date column.\<close>

definition surviving :: "raw_row list \<Rightarrow> raw_row list" where
  "surviving df = filter (\<lambda>r. raw_review_text r \<noteq> None) df"

definition clean_row ::
  "readings \<Rightarrow> float option \<Rightarrow> float option \<Rightarrow> bool \<Rightarrow> string option list \<Rightarrow> raw_row \<Rightarrow> review" where
  "clean_row rd rating_median age_median objects date_col r =
     make_review rd date_col
       (r, fillna rating_median (to_numeric rd (raw_rating r)),
        projr (if objects then object_to_int rd (fillna_cell age_median (raw_user_age r))
               else float_to_int (cell_float (fillna_cell age_median (raw_user_age r)))),
        projr (float_to_int (fillna (Some (Fin 0)) (to_numeric rd (raw_num_helpful_votes r)))))"

text \<open>A float that is infinite.\<close>

definition is_inf :: "float option \<Rightarrow> bool" where
  "is_inf v = (v = Some MInf \<or> v = Some PInf)"

text \<open>The conjunction of constraints the Filter Engine is specified by: an app or a
  category \<open>All\<close> restricts nothing, the rating range always applies, the date range
  applies when it has both ends.\<close>

definition satisfies :: "string \<Rightarrow> string \<Rightarrow> rat \<times> rat \<Rightarrow> date list \<Rightarrow> enriched \<Rightarrow> bool" where
  "satisfies app category rating_range date_range r =
     ((app = ''All'' \<or> app_name r = Some app) \<and>
      (category = ''All'' \<or> app_category r = Some category) \<and>
      rating_between rating_range (rating r) \<and>
      (length date_range \<noteq> 2 \<or> date_between (date_range ! 0) (date_range ! 1) (review_date r)))"

text \<open>
  One constraint of the sidebar, and the criteria of a call of \<open>filter_dataframe\<close>.
  Filtering "with a constraint alone" leaves the other widgets at "no restriction":
  \<open>All\<close>, \<open>All\<close>, the whole slider, and a date range that restricts no known date of
  the view (the widest one, or one that is not complete).
\<close>

datatype constraint = AppName string | Category string | RatingRange rat rat | DateRange date date

type_synonym criteria = "string \<times> string \<times> (rat \<times> rat) \<times> date list"

definition no_restriction :: "date list \<Rightarrow> criteria" where
  "no_restriction dates = (''All'', ''All'', widest_rating_range, dates)"

fun constrain :: "constraint \<Rightarrow> criteria \<Rightarrow> criteria" where
  "constrain (AppName a) (app, category, rating_range, date_range) =
     (a, category, rating_range, date_range)"
| "constrain (Category c) (app, category, rating_range, date_range) =
     (app, c, rating_range, date_range)"
| "constrain (RatingRange lo hi) (app, category, rating_range, date_range) =
     (app, category, (lo, hi), date_range)"
| "constrain (DateRange start_date end_date) (app, category, rating_range, date_range) =
     (app, category, rating_range, [start_date, end_date])"

fun filter_by :: "enriched list \<Rightarrow> criteria \<Rightarrow> enriched list" where
  "filter_by view (app, category, rating_range, date_range) =
     filter_dataframe view app category rating_range date_range"

fun same_widget :: "constraint \<Rightarrow> constraint \<Rightarrow> bool" where
  "same_widget (AppName a) (AppName b) = True"
| "same_widget (Category a) (Category b) = True"
| "same_widget (RatingRange lo hi) (RatingRange lo' hi') = True"
| "same_widget (DateRange s e) (DateRange s' e') = True"
| "same_widget c c' = False"

text \<open>The slider delivers a range inside \<open>[1.0, 5.0]\<close>.\<close>

fun on_slider :: "constraint \<Rightarrow> bool" where
  "on_slider (RatingRange lo hi) = (fst widest_rating_range \<le> lo \<and> hi \<le> snd widest_rating_range)"
| "on_slider c = True"

definition restricts_no_date :: "date list \<Rightarrow> enriched list \<Rightarrow> bool" where
  "restricts_no_date dates view =
     (if length dates = 2 then list_all (\<lambda>d. dates ! 0 \<le> d \<and> d \<le> dates ! 1) (known_dates view)
      else True)"

section \<open>Sample data\<close>

text \<open>
  Readings of a few strings, as pandas and Python give them, and two raw rows after the
  scenario of the specification: the first has no age and a version \<open>v2.1\<close>, the second
  has no rating and an age of 30.
\<close>

definition sample_readings :: readings where
  "sample_readings =
     \<lparr> num_of_str = [''4.5'' \<mapsto> Fin (9 / 2), ''12'' \<mapsto> Fin 12, ''inf'' \<mapsto> PInf],
       float_of_str = [''4.5'' \<mapsto> Some (Fin (9 / 2)), ''12'' \<mapsto> Some (Fin 12),
                       ''inf'' \<mapsto> Some PInf, ''4_5'' \<mapsto> Some (Fin 45)],
       int_of_str = [''12'' \<mapsto> 12, ''4_5'' \<mapsto> 45],
       ts_of_str = (\<lambda>first. [''2025-08-01'' \<mapsto> Timestamp (2025, 8, 1) 0]) \<rparr>"

definition scenario_row1 :: raw_row where
  "scenario_row1 =
     \<lparr> raw_app_name = Some ''MapGo'', raw_app_category = Some ''Travel'',
       raw_review_text = Some ''works well'', raw_rating = Num (Fin (9 / 2)), raw_user_age = NaN,
       raw_user_country = Some ''India'', raw_user_gender = None,
       raw_app_version = Some ''v2.1'', raw_num_helpful_votes = Str ''12'',
       raw_review_date = Some ''2025-08-01'', raw_review_language = Some ''en'' \<rparr>"

definition scenario_row2 :: raw_row where
  "scenario_row2 =
     \<lparr> raw_app_name = Some ''Notely'', raw_app_category = Some ''Tools'',
       raw_review_text = Some ''crashes'', raw_rating = NaN, raw_user_age = Num (Fin 30),
       raw_user_country = None, raw_user_gender = Some ''Female'',
       raw_app_version = Some ''1.0'', raw_num_helpful_votes = Str ''a few'',
       raw_review_date = Some ''last week'', raw_review_language = Some ''de'' \<rparr>"

text \<open>The two rows as the Cleaner returns them.\<close>

definition scenario_clean1 :: review where
  "scenario_clean1 =
     \<lparr> app_name = Some ''MapGo'', app_category = Some ''Travel'',
       review_text = Some ''works well'', rating = Some (Fin (9 / 2)), user_age = 30,
       user_country = Some ''India'', user_gender = Some ''Unknown'', app_version = ''2.1'',
       num_helpful_votes = 12, review_date = Some (Timestamp (2025, 8, 1) 0),
       review_language = Some ''en'' \<rparr>"

definition scenario_clean2 :: review where
  "scenario_clean2 =
     \<lparr> app_name = Some ''Notely'', app_category = Some ''Tools'',
       review_text = Some ''crashes'', rating = Some (Fin (9 / 2)), user_age = 30,
       user_country = Some ''Unknown'', user_gender = Some ''Female'', app_version = ''1.0'',
       num_helpful_votes = 0, review_date = None, review_language = Some ''de'' \<rparr>"

section \<open>Properties of the pandas operations\<close>

lemma less_float_simps [simp]:
  "Fin a < Fin b \<longleftrightarrow> a < b"
  "MInf < Fin a"
  "Fin a < PInf"
  "MInf < PInf"
  "\<not> x < MInf"
  "\<not> PInf < x"
  by (cases x; auto simp: less_float_def)+

lemma collect_map_Inr_id: "collect (map Inr ys) = Inr ys"
  by (induction ys) auto

lemma collect_Inr_D: "collect xs = Inr ys \<Longrightarrow> xs = map Inr ys"
  by (induction xs arbitrary: ys rule: collect.induct) (auto split: sum.splits)

lemma collect_Inr: "collect xs = Inr ys \<longleftrightarrow> xs = map Inr ys"
  using collect_Inr_D collect_map_Inr_id by blast

lemma collect_map_Inr:
  assumes "collect (map f xs) = Inr ys"
  shows "ys = map (\<lambda>x. projr (f x)) xs" and "\<And>x. x \<in> set xs \<Longrightarrow> f x = Inr (projr (f x))"
proof -
  from assms have m: "map f xs = map Inr ys" by (simp add: collect_Inr)
  then show "ys = map (\<lambda>x. projr (f x)) xs"
  proof (induction xs arbitrary: ys)
    case Nil
    then show ?case by simp
  next
    case (Cons x xs)
    then show ?case by (cases ys) auto
  qed
  show "f x = Inr (projr (f x))" if "x \<in> set xs" for x
  proof -
    from that have "f x \<in> set (map f xs)" by simp
    with m have "f x \<in> set (map Inr ys)" by simp
    then obtain y where "f x = Inr y" by auto
    then show ?thesis by simp
  qed
qed

lemma collect_all_Inr:
  assumes "\<And>x. x \<in> set xs \<Longrightarrow> f x = Inr (g x)"
  shows "collect (map f xs) = Inr (map g xs)"
  using assms by (induction xs) auto

lemma sort_Nil_iff: "sort xs = [] \<longleftrightarrow> xs = []"
  using length_sort[of "\<lambda>x. x" xs] by (metis length_0_conv)

lemma median_empty: "present col = [] \<Longrightarrow> median col = None"
  by (simp add: median_def)

lemma present_Nil: "present col = [] \<longleftrightarrow> (\<forall>c \<in> set col. c = None)"
  by (induction col rule: present.induct) auto

lemma set_present: "set (present col) = {x. Some x \<in> set col}"
  by (induction col rule: present.induct) auto

text \<open>The median of a column whose values are finite is a finite number, unless no
  value is present.\<close>

lemma median_finite:
  assumes ne: "present col \<noteq> []"
      and fin: "\<And>x. Some x \<in> set col \<Longrightarrow> \<exists>q. x = Fin q"
  shows "\<exists>q. median col = Some (Fin q)"
proof -
  let ?vs = "sort (present col)"
  let ?n = "length ?vs"
  have n: "?n \<noteq> 0" using ne by simp
  have el: "\<exists>q. ?vs ! i = Fin q" if "i < ?n" for i
  proof -
    from that have "?vs ! i \<in> set ?vs" by (rule nth_mem)
    then have "Some (?vs ! i) \<in> set col" by (simp add: set_present)
    then show ?thesis by (rule fin)
  qed
  show ?thesis
  proof (cases "odd ?n")
    case True
    have "?n div 2 < ?n" using n by simp
    from el[OF this] obtain q where "?vs ! (?n div 2) = Fin q" ..
    then show ?thesis using ne True by (simp add: median_def Let_def sort_Nil_iff)
  next
    case False
    have 1: "?n div 2 < ?n" using n by simp
    have 2: "?n div 2 - 1 < ?n" using n by (simp add: less_imp_diff_less)
    from el[OF 1] obtain a where a: "?vs ! (?n div 2) = Fin a" ..
    from el[OF 2] obtain b where b: "?vs ! (?n div 2 - 1) = Fin b" ..
    have "median col = map_option (\<lambda>s. fdiv s 2) (fadd (?vs ! (?n div 2 - 1)) (?vs ! (?n div 2)))"
      using ne False by (simp add: median_def Let_def sort_Nil_iff)
    with a b have "median col = Some (Fin ((b + a) / 2))" by simp
    then show ?thesis by blast
  qed
qed

lemma fillna_None: "fillna v c = None \<longleftrightarrow> c = None \<and> v = None"
  by (cases c) (auto simp: fillna_def)

lemma is_str_fillna_cell: "is_str (fillna_cell v c) = is_str c"
  by (cases c; cases v) (simp_all add: fillna_cell_def is_str_def)

lemma to_numeric_no_string: "\<not> is_str c \<Longrightarrow> to_numeric rd c = cell_float c"
  by (cases c) (simp_all add: to_numeric_def cell_float_def is_str_def)

lemma cell_f8_no_string: "\<not> is_str c \<Longrightarrow> cell_f8 rd c = Inr (cell_float c)"
  by (cases c) (simp_all add: cell_f8_def cell_float_def is_str_def)

text \<open>The median of a column without strings is the median of its numbers.\<close>

lemma series_median_no_string:
  assumes "\<not> list_ex is_str col"
  shows "series_median rd col = Inr (median (map cell_float col))"
proof -
  have "collect (map (cell_f8 rd) col) = Inr (map cell_float col)"
    using assms by (intro collect_all_Inr cell_f8_no_string) (auto simp: list_ex_iff)
  then show ?thesis using assms by (simp add: series_median_def float_values_def)
qed

text \<open>A column with a string and no integer has no median: the reduction raises.\<close>

lemma series_median_strings:
  "list_ex is_str col \<Longrightarrow> \<not> list_ex is_int col \<Longrightarrow> series_median rd col = Inl TypeError"
  by (simp add: series_median_def float_values_def)

section \<open>Properties of the Cleaner\<close>

lemma zip_columns:
  "map h (zip xs (zip (map f xs) (zip (map g xs) (map k xs)))) = map (\<lambda>x. h (x, f x, g x, k x)) xs"
  by (induction xs) auto

text \<open>When the Cleaner returns, both medians exist, both casts succeed, and its table is
  the surviving rows, each cleaned with the two medians.\<close>

lemma clean_data_steps:
  assumes "clean_data rd df = Inr out"
  obtains rating_median age_median where
    "series_median rd (map raw_rating (surviving df)) = Inr rating_median"
    "series_median rd (map raw_user_age (surviving df)) = Inr age_median"
    "astype_int rd (map (\<lambda>r. fillna_cell age_median (raw_user_age r)) (surviving df))
       = Inr (map user_age out)"
    "collect (map (\<lambda>r. float_to_int (fillna (Some (Fin 0)) (to_numeric rd (raw_num_helpful_votes r))))
               (surviving df))
       = Inr (map num_helpful_votes out)"
    "out = map (clean_row rd rating_median age_median
                 (list_ex is_str (map raw_user_age (surviving df)))
                 (map raw_review_date (surviving df)))
             (surviving df)"
proof -
  let ?S = "surviving df"
  let ?votes = "map (\<lambda>r. float_to_int (fillna (Some (Fin 0)) (to_numeric rd (raw_num_helpful_votes r)))) ?S"
  from assms obtain rm am age_col votes_col where
    rm: "series_median rd (map raw_rating ?S) = Inr rm" and
    am: "series_median rd (map raw_user_age ?S) = Inr am" and
    a: "astype_int rd (map (\<lambda>r. fillna_cell am (raw_user_age r)) ?S) = Inr age_col" and
    v: "collect ?votes = Inr votes_col" and
    o: "out = map (make_review rd (map raw_review_date ?S))
          (zip ?S (zip (map (\<lambda>r. fillna rm (to_numeric rd (raw_rating r))) ?S)
             (zip age_col votes_col)))"
    unfolding clean_data_def surviving_def[symmetric] Let_def
    by (auto split: sum.splits)
  let ?obj = "list_ex is_str (map raw_user_age ?S)"
  have obj: "list_ex is_str (map (\<lambda>r. fillna_cell am (raw_user_age r)) ?S) = ?obj"
    by (simp add: list_ex_iff is_str_fillna_cell)
  have a': "age_col =
      map (\<lambda>r. projr (if ?obj then object_to_int rd (fillna_cell am (raw_user_age r))
                       else float_to_int (cell_float (fillna_cell am (raw_user_age r))))) ?S"
  proof (cases ?obj)
    case True
    with a obj have "collect (map (\<lambda>r. object_to_int rd (fillna_cell am (raw_user_age r))) ?S) = Inr age_col"
      by (simp add: astype_int_def comp_def)
    from collect_map_Inr(1)[OF this] True show ?thesis by simp
  next
    case False
    with a obj have "collect (map (\<lambda>r. float_to_int (cell_float (fillna_cell am (raw_user_age r)))) ?S)
        = Inr age_col"
      by (simp add: astype_int_def comp_def)
    from collect_map_Inr(1)[OF this] False show ?thesis by simp
  qed
  have v': "votes_col =
      map (\<lambda>r. projr (float_to_int (fillna (Some (Fin 0)) (to_numeric rd (raw_num_helpful_votes r))))) ?S"
    using collect_map_Inr(1)[OF v] .
  have rows: "out = map (clean_row rd rm am ?obj (map raw_review_date ?S)) ?S"
    unfolding o a' v' zip_columns clean_row_def by simp
  have ages: "map user_age out = age_col"
    unfolding rows a' by (simp add: clean_row_def make_review_def comp_def)
  have votes: "map num_helpful_votes out = votes_col"
    unfolding rows v' by (simp add: clean_row_def make_review_def comp_def)
  show thesis
    using that[OF rm am] a v rows ages votes by simp
qed

lemmas eval_clean =
  clean_data_def series_median_def float_values_def astype_int_def cell_f8_def
  float_to_int_def object_to_int_def in_int64_def
  is_str_def is_int_def is_number_def cell_float_def median_def
  to_numeric_def fillna_def fillna_cell_def trunc_def make_review_def to_datetime_def
  astype_str_def lstrip_def surviving_def sample_readings_def
  scenario_row1_def scenario_row2_def scenario_clean1_def scenario_clean2_def

lemma scenario_cleaned:
  "clean_data sample_readings [scenario_row1, scenario_row2]
     = Inr [scenario_clean1, scenario_clean2]"
  by (simp add: eval_clean)

lemma Inr_projr: "\<exists>n. t = Inr n \<Longrightarrow> t = Inr (projr t)"
  by auto

text \<open>
  Claim C1. The Cleaner is to coerce a non-numeric rating to missing and then to fill
  every missing rating with the median of the ratings present after the coercion.
  The code coerces the column, but takes the median of the column as it was before the
  coercion. On the column a CSV file with the ratings \<open>4.5\<close> and \<open>five\<close> is read as, the
  median raises and the Cleaner returns no table: \<open>five\<close> is not coerced to missing and
  filled with 4.5.
\<close>

theorem clean_data_non_numeric_rating_raises:
  "clean_data sample_readings
     [scenario_row1\<lparr>raw_rating := Str ''4.5''\<rparr>, scenario_row2\<lparr>raw_rating := Str ''five''\<rparr>]
   = Inl TypeError"
  by (simp add: eval_clean)

text \<open>
  Claim C2. The Cleaner is to recover from an age that is not a number as it does from
  votes that are not numbers. The line for \<open>user_age\<close> does not coerce the column as the
  lines for \<open>rating\<close> and \<open>num_helpful_votes\<close> do: on the column a CSV file with an empty
  age and the age \<open>thirty\<close> is read as, the median raises and the Cleaner returns no table.
\<close>

theorem clean_data_non_numeric_age_raises:
  "clean_data sample_readings
     [scenario_row1, scenario_row2\<lparr>raw_user_age := Str ''thirty''\<rparr>]
   = Inl TypeError"
  by (simp add: eval_clean)

text \<open>Votes that are not a number are recovered; votes that read as an infinity pass the
  coercion and the fill, and make the cast raise.\<close>

lemma clean_data_infinite_votes_raise:
  "clean_data sample_readings
     [scenario_row1, scenario_row2\<lparr>raw_num_helpful_votes := Str ''inf''\<rparr>]
   = Inl ValueError"
  by (simp add: eval_clean)

text \<open>A rating column with an integer and a string has a median (the string is read with
  \<open>float\<close>), and the Cleaner returns: the string is coerced to missing and filled.\<close>

lemma clean_data_mixed_rating_column:
  "map_sum id (map rating)
     (clean_data sample_readings
        [scenario_row1\<lparr>raw_rating := Integer 4\<rparr>, scenario_row2\<lparr>raw_rating := Str ''4_5''\<rparr>,
         scenario_row2])
   = Inr [Some (Fin 4), Some (Fin (49 / 2)), Some (Fin (49 / 2))]"
  by (simp add: eval_clean)

text \<open>
  Whenever the surviving rows hold no string in the rating and age columns, no infinite
  age, some age unless no row survives, and no votes that read as an infinity, the
  Cleaner returns a table: votes that are not a number and a \<open>review_date\<close> that does
  not parse never make it raise.
\<close>

theorem clean_data_succeeds:
  assumes r: "\<not> list_ex is_str (map raw_rating (surviving df))"
      and a: "\<not> list_ex is_str (map raw_user_age (surviving df))"
      and af: "\<not> list_ex (\<lambda>r. is_inf (cell_float (raw_user_age r))) (surviving df)"
      and p: "surviving df = [] \<or> list_ex (\<lambda>r. is_number (raw_user_age r)) (surviving df)"
      and vf: "\<not> list_ex (\<lambda>r. is_inf (to_numeric rd (raw_num_helpful_votes r))) (surviving df)"
  shows "\<exists>out. clean_data rd df = Inr out"
proof -
  let ?S = "surviving df"
  let ?m = "median (map cell_float (map raw_user_age ?S))"
  have rm: "series_median rd (map raw_rating ?S) = Inr (median (map cell_float (map raw_rating ?S)))"
    by (rule series_median_no_string[OF r])
  have am: "series_median rd (map raw_user_age ?S) = Inr ?m"
    by (rule series_median_no_string[OF a])
  have cast: "\<exists>n. float_to_int (cell_float (fillna_cell ?m (raw_user_age x))) = Inr n"
    if x: "x \<in> set ?S" for x
  proof -
    from x have "?S \<noteq> []" by auto
    with p have "list_ex (\<lambda>r. is_number (raw_user_age r)) ?S" by simp
    then have ne: "present (map cell_float (map raw_user_age ?S)) \<noteq> []"
      by (auto simp: present_Nil list_ex_iff is_number_def cell_float_def split: cell.splits)
    have "\<exists>q. v = Fin q" if "Some v \<in> set (map cell_float (map raw_user_age ?S))" for v
    proof -
      from that obtain y where y: "y \<in> set ?S" "cell_float (raw_user_age y) = Some v" by auto
      with af have "\<not> is_inf (Some v)" by (auto simp: list_ex_iff)
      then show ?thesis by (cases v) (simp_all add: is_inf_def)
    qed
    from median_finite[OF ne this] obtain q where q: "?m = Some (Fin q)" by blast
    from a x have ns: "\<not> is_str (raw_user_age x)" by (auto simp: list_ex_iff)
    from af x have ni: "\<not> is_inf (cell_float (raw_user_age x))" by (auto simp: list_ex_iff)
    show ?thesis
    proof (cases "raw_user_age x")
      case NaN
      with q show ?thesis by (simp add: fillna_cell_def cell_float_def float_to_int_def)
    next
      case (Integer n)
      then show ?thesis by (simp add: fillna_cell_def cell_float_def float_to_int_def)
    next
      case (Num v)
      with ni show ?thesis
        by (cases v) (simp_all add: fillna_cell_def cell_float_def float_to_int_def is_inf_def)
    next
      case (Str s)
      with ns show ?thesis by (simp add: is_str_def)
    qed
  qed
  have "collect (map (\<lambda>r. float_to_int (cell_float (fillna_cell ?m (raw_user_age r)))) ?S)
      = Inr (map (\<lambda>r. projr (float_to_int (cell_float (fillna_cell ?m (raw_user_age r))))) ?S)"
    by (intro collect_all_Inr Inr_projr cast)
  moreover have "\<not> list_ex is_str (map (\<lambda>r. fillna_cell ?m (raw_user_age r)) ?S)"
    using a by (simp add: list_ex_iff is_str_fillna_cell)
  ultimately obtain age_col where
    ac: "astype_int rd (map (\<lambda>r. fillna_cell ?m (raw_user_age r)) ?S) = Inr age_col"
    by (simp add: astype_int_def comp_def)
  have "\<exists>n. float_to_int (fillna (Some (Fin 0)) (to_numeric rd (raw_num_helpful_votes x))) = Inr n"
    if x: "x \<in> set ?S" for x
  proof -
    from vf x have ni: "\<not> is_inf (to_numeric rd (raw_num_helpful_votes x))"
      by (auto simp: list_ex_iff)
    show ?thesis
    proof (cases "to_numeric rd (raw_num_helpful_votes x)")
      case None
      then show ?thesis by (simp add: fillna_def float_to_int_def)
    next
      case (Some v)
      with ni show ?thesis
        by (cases v) (simp_all add: fillna_def float_to_int_def is_inf_def)
    qed
  qed
  then have "collect (map (\<lambda>r. float_to_int (fillna (Some (Fin 0))
                (to_numeric rd (raw_num_helpful_votes r)))) ?S)
      = Inr (map (\<lambda>r. projr (float_to_int (fillna (Some (Fin 0))
                (to_numeric rd (raw_num_helpful_votes r))))) ?S)"
    by (intro collect_all_Inr Inr_projr)
  then obtain votes_col where
    vc: "collect (map (\<lambda>r. float_to_int (fillna (Some (Fin 0))
                (to_numeric rd (raw_num_helpful_votes r)))) ?S) = Inr votes_col"
    by blast
  show ?thesis
    unfolding clean_data_def surviving_def[symmetric] Let_def
    using rm am ac vc by simp
qed

text \<open>Witness: the two scenario rows. The first has the votes \<open>12\<close> as a string, the
  second the votes \<open>a few\<close> and the date \<open>last week\<close>.\<close>

theorem clean_data_succeeds_witness:
  "\<not> list_ex is_str (map raw_rating (surviving [scenario_row1, scenario_row2])) \<and>
   \<not> list_ex is_str (map raw_user_age (surviving [scenario_row1, scenario_row2])) \<and>
   \<not> list_ex (\<lambda>r. is_inf (cell_float (raw_user_age r))) (surviving [scenario_row1, scenario_row2]) \<and>
   list_ex (\<lambda>r. is_number (raw_user_age r)) (surviving [scenario_row1, scenario_row2]) \<and>
   \<not> list_ex (\<lambda>r. is_inf (to_numeric sample_readings (raw_num_helpful_votes r)))
       (surviving [scenario_row1, scenario_row2]) \<and>
   raw_num_helpful_votes scenario_row2 = Str ''a few'' \<and>
   num_of_str sample_readings ''a few'' = None \<and>
   raw_review_date scenario_row2 = Some ''last week'' \<and>
   ts_of_str sample_readings (Some ''2025-08-01'') ''last week'' = None \<and>
   (\<exists>out. clean_data sample_readings [scenario_row1, scenario_row2] = Inr out)"
proof -
  have r: "\<not> list_ex is_str (map raw_rating (surviving [scenario_row1, scenario_row2]))"
    by (simp add: eval_clean)
  have a: "\<not> list_ex is_str (map raw_user_age (surviving [scenario_row1, scenario_row2]))"
    by (simp add: eval_clean)
  have af: "\<not> list_ex (\<lambda>r. is_inf (cell_float (raw_user_age r))) (surviving [scenario_row1, scenario_row2])"
    by (simp add: eval_clean is_inf_def)
  have p: "list_ex (\<lambda>r. is_number (raw_user_age r)) (surviving [scenario_row1, scenario_row2])"
    by (simp add: eval_clean)
  from p have p': "surviving [scenario_row1, scenario_row2] = [] \<or>
      list_ex (\<lambda>r. is_number (raw_user_age r)) (surviving [scenario_row1, scenario_row2])"
    by (rule disjI2)
  have vf: "\<not> list_ex (\<lambda>r. is_inf (to_numeric sample_readings (raw_num_helpful_votes r)))
       (surviving [scenario_row1, scenario_row2])"
    by (simp add: eval_clean is_inf_def)
  have s: "raw_num_helpful_votes scenario_row2 = Str ''a few'' \<and>
     num_of_str sample_readings ''a few'' = None \<and>
     raw_review_date scenario_row2 = Some ''last week'' \<and>
     ts_of_str sample_readings (Some ''2025-08-01'') ''last week'' = None"
    by (simp add: eval_clean)
  from clean_data_succeeds[OF r a af p' vf] r a af p vf s
  show ?thesis by blast
qed

lemma rating_clean_row:
  "rating (clean_row rd rating_median age_median objects date_col r)
     = fillna rating_median (to_numeric rd (raw_rating r))"
  by (simp add: clean_row_def make_review_def)

text \<open>
  Claim C3, as amended. The review texts of the Cleaner's table are the texts that are
  present in the input, in order: a row without text is dropped, every other row is kept,
  so every row of the output has a text. (As stated the claim fails: an empty string
  is a text that is present, and its row is kept.)
\<close>

theorem clean_data_review_text:
  assumes "clean_data rd df = Inr out"
  shows "map review_text out = filter (\<lambda>t. t \<noteq> None) (map raw_review_text df) \<and>
         list_all (\<lambda>r. review_text r \<noteq> None) out"
proof -
  from assms obtain rm am ob dc where rows: "out = map (clean_row rd rm am ob dc) (surviving df)"
    by (rule clean_data_steps)
  have t: "map review_text out = map raw_review_text (surviving df)"
    unfolding rows by (simp add: comp_def clean_row_def make_review_def)
  have "map raw_review_text (surviving df) = filter (\<lambda>t. t \<noteq> None) (map raw_review_text df)"
    by (simp add: surviving_def filter_map comp_def)
  with t have m: "map review_text out = filter (\<lambda>t. t \<noteq> None) (map raw_review_text df)"
    by simp
  then have "list_all (\<lambda>t. t \<noteq> None) (map review_text out)"
    by (simp add: list_all_iff)
  then have "list_all (\<lambda>r. review_text r \<noteq> None) out"
    by (simp add: list_all_iff)
  with m show ?thesis by simp
qed

theorem clean_data_review_text_witness:
  "clean_data sample_readings
      [scenario_row1, scenario_row2\<lparr>raw_review_text := None\<rparr>, scenario_row2]
     = Inr [scenario_clean1, scenario_clean2] \<and>
   map review_text [scenario_clean1, scenario_clean2]
     = filter (\<lambda>t. t \<noteq> None)
         (map raw_review_text [scenario_row1, scenario_row2\<lparr>raw_review_text := None\<rparr>, scenario_row2]) \<and>
   list_all (\<lambda>r. review_text r \<noteq> None) [scenario_clean1, scenario_clean2]"
proof -
  have h: "clean_data sample_readings
      [scenario_row1, scenario_row2\<lparr>raw_review_text := None\<rparr>, scenario_row2]
     = Inr [scenario_clean1, scenario_clean2]"
    by (simp add: eval_clean)
  from clean_data_review_text[OF h] h show ?thesis by simp
qed

text \<open>Claim C3 as stated fails: the second row has the empty string as its text and is
  in the output.\<close>

theorem clean_data_keeps_empty_text:
  "map_sum id (map review_text)
     (clean_data sample_readings
        [scenario_row1, scenario_row2\<lparr>raw_review_text := Some ''''\<rparr>])
   = Inr [Some ''works well'', Some '''']"
  by (simp add: eval_clean)

text \<open>
  Claim C4, as amended (pandas 2, where the in-place fill of the text columns reaches
  the frame). In a table the Cleaner returns:
  \<^item> \<open>user_country\<close> and \<open>user_gender\<close> are never missing;
  \<^item> \<open>app_version\<close> is the raw version, or \<open>Unknown\<close> for a missing one, without its
    leading \<open>v\<close>s;
  \<^item> the age column, filled with its median, holds no missing value, and \<open>user_age\<close>
    is its integer cast;
  \<^item> \<open>num_helpful_votes\<close> is the integer cast of the coerced votes filled with 0;
  \<^item> no rating is missing exactly when the median of the rating column is a number or
    no surviving rating is missing after the coercion; when every surviving rating is
    missing, every rating of the output is.

  (As stated the claim fails in its edge case: with no rating present the median is NaN
  and the missing ratings stay missing.)
\<close>

theorem clean_data_no_missing:
  assumes "clean_data rd df = Inr out"
  shows "list_all (\<lambda>r. user_country r \<noteq> None \<and> user_gender r \<noteq> None) out \<and>
         map app_version out
           = map (\<lambda>r. lstrip CHR ''v'' (case raw_app_version r of None \<Rightarrow> ''Unknown'' | Some s \<Rightarrow> s))
               (surviving df) \<and>
         (\<exists>age_median.
            series_median rd (map raw_user_age (surviving df)) = Inr age_median \<and>
            list_all (\<lambda>r. fillna_cell age_median (raw_user_age r) \<noteq> NaN) (surviving df) \<and>
            astype_int rd (map (\<lambda>r. fillna_cell age_median (raw_user_age r)) (surviving df))
              = Inr (map user_age out)) \<and>
         collect (map (\<lambda>r. float_to_int (fillna (Some (Fin 0)) (to_numeric rd (raw_num_helpful_votes r))))
                    (surviving df))
           = Inr (map num_helpful_votes out) \<and>
         (\<exists>rating_median.
            series_median rd (map raw_rating (surviving df)) = Inr rating_median \<and>
            (list_all (\<lambda>r. rating r \<noteq> None) out
               \<longleftrightarrow> rating_median \<noteq> None
                    \<or> list_all (\<lambda>r. to_numeric rd (raw_rating r) \<noteq> None) (surviving df))) \<and>
         (list_all (\<lambda>r. raw_rating r = NaN) (surviving df) \<longrightarrow> list_all (\<lambda>r. rating r = None) out)"
proof -
  let ?S = "surviving df"
  from assms obtain rm am where
    rm: "series_median rd (map raw_rating ?S) = Inr rm" and
    am: "series_median rd (map raw_user_age ?S) = Inr am" and
    ages: "astype_int rd (map (\<lambda>r. fillna_cell am (raw_user_age r)) ?S) = Inr (map user_age out)" and
    votes: "collect (map (\<lambda>r. float_to_int (fillna (Some (Fin 0))
              (to_numeric rd (raw_num_helpful_votes r)))) ?S) = Inr (map num_helpful_votes out)" and
    rows: "out = map (clean_row rd rm am (list_ex is_str (map raw_user_age ?S))
                   (map raw_review_date ?S)) ?S"
    by (rule clean_data_steps)
  have c: "list_all (\<lambda>r. user_country r \<noteq> None \<and> user_gender r \<noteq> None) out"
    unfolding rows
    by (auto simp: list_all_iff clean_row_def make_review_def fillna_def split: option.splits)
  have v: "map app_version out
      = map (\<lambda>r. lstrip CHR ''v'' (case raw_app_version r of None \<Rightarrow> ''Unknown'' | Some s \<Rightarrow> s)) ?S"
    unfolding rows
    by (auto simp: clean_row_def make_review_def fillna_def astype_str_def split: option.splits)
  have n: "list_all (\<lambda>r. fillna_cell am (raw_user_age r) \<noteq> NaN) ?S"
  proof -
    have "fillna_cell am (raw_user_age x) \<noteq> NaN" if x: "x \<in> set ?S" for x
    proof
      assume nan: "fillna_cell am (raw_user_age x) = NaN"
      show False
      proof (cases "list_ex is_str (map (\<lambda>r. fillna_cell am (raw_user_age r)) ?S)")
        case True
        with ages have "collect (map (\<lambda>r. object_to_int rd (fillna_cell am (raw_user_age r))) ?S)
            = Inr (map user_age out)"
          by (simp add: astype_int_def comp_def)
        from collect_map_Inr(2)[OF this x] nan show False
          by (simp add: object_to_int_def)
      next
        case False
        with ages have "collect (map (\<lambda>r. float_to_int (cell_float (fillna_cell am (raw_user_age r)))) ?S)
            = Inr (map user_age out)"
          by (simp add: astype_int_def comp_def)
        from collect_map_Inr(2)[OF this x] nan show False
          by (simp add: float_to_int_def cell_float_def)
      qed
    qed
    then show ?thesis by (simp add: list_all_iff)
  qed
  note rt = rating_clean_row
  have r1: "list_all (\<lambda>r. rating r \<noteq> None) out
      \<longleftrightarrow> rm \<noteq> None \<or> list_all (\<lambda>r. to_numeric rd (raw_rating r) \<noteq> None) ?S"
    unfolding rows by (auto simp: list_all_iff rt fillna_def split: option.splits)
  have r2: "list_all (\<lambda>r. rating r = None) out" if all: "list_all (\<lambda>r. raw_rating r = NaN) ?S"
  proof -
    from all have ns: "\<not> list_ex is_str (map raw_rating ?S)"
      by (auto simp: list_all_iff list_ex_iff is_str_def)
    from all have "present (map cell_float (map raw_rating ?S)) = []"
      by (auto simp: present_Nil list_all_iff cell_float_def)
    then have "median (map cell_float (map raw_rating ?S)) = None" by (rule median_empty)
    with rm series_median_no_string[OF ns, of rd] have "rm = None" by simp
    with all show ?thesis
      unfolding rows by (auto simp: list_all_iff rt fillna_def to_numeric_def)
  qed
  from c v am n ages votes rm r1 r2 show ?thesis by blast
qed

theorem clean_data_no_missing_witness:
  "clean_data sample_readings [scenario_row1, scenario_row2]
     = Inr [scenario_clean1, scenario_clean2] \<and>
   series_median sample_readings (map raw_rating (surviving [scenario_row1, scenario_row2]))
     = Inr (Some (Fin (9 / 2))) \<and>
   list_all (\<lambda>r. user_country r \<noteq> None \<and> user_gender r \<noteq> None) [scenario_clean1, scenario_clean2] \<and>
   map app_version [scenario_clean1, scenario_clean2] = [''2.1'', ''1.0''] \<and>
   map user_age [scenario_clean1, scenario_clean2] = [30, 30] \<and>
   map num_helpful_votes [scenario_clean1, scenario_clean2] = [12, 0] \<and>
   list_all (\<lambda>r. rating r \<noteq> None) [scenario_clean1, scenario_clean2]"
proof -
  have h: "clean_data sample_readings [scenario_row1, scenario_row2]
     = Inr [scenario_clean1, scenario_clean2]"
    by (rule scenario_cleaned)
  have m: "series_median sample_readings (map raw_rating (surviving [scenario_row1, scenario_row2]))
     = Inr (Some (Fin (9 / 2)))"
    by (simp add: eval_clean)
  have e: "map app_version [scenario_clean1, scenario_clean2] = [''2.1'', ''1.0''] \<and>
     map user_age [scenario_clean1, scenario_clean2] = [30, 30] \<and>
     map num_helpful_votes [scenario_clean1, scenario_clean2] = [12, 0]"
    by (simp add: scenario_clean1_def scenario_clean2_def)
  from clean_data_no_missing[OF h] h m e show ?thesis by auto
qed

text \<open>Claim C4 as stated fails: the only row has no rating, the median is NaN, and the
  rating of the output row is missing.\<close>

theorem clean_data_rating_stays_missing:
  "map_sum id (map rating)
     (clean_data sample_readings [scenario_row2])
   = Inr [None]"
  by (simp add: eval_clean)

text \<open>
  Whenever the Cleaner returns a table and the surviving ratings hold no string, its
  rating column is the coerced rating column of the surviving rows with every missing
  value replaced by the median of the ratings present after the coercion: in a table
  with the ratings 4.5 and missing, the missing rating becomes 4.5.
\<close>

theorem clean_data_rating_filled:
  assumes "clean_data rd df = Inr out"
      and "\<not> list_ex is_str (map raw_rating (surviving df))"
  shows "map rating out =
           map (fillna (median (map (to_numeric rd) (map raw_rating (surviving df)))))
             (map (to_numeric rd) (map raw_rating (surviving df)))"
proof -
  let ?S = "surviving df"
  from assms(1) obtain rm am ob dc where
    rm: "series_median rd (map raw_rating ?S) = Inr rm" and
    rows: "out = map (clean_row rd rm am ob dc) ?S"
    by (rule clean_data_steps)
  from assms(2) have n: "\<not> is_str (raw_rating r)" if "r \<in> set ?S" for r
    using that by (auto simp: list_ex_iff)
  have c: "map (to_numeric rd) (map raw_rating ?S) = map cell_float (map raw_rating ?S)"
    using n by (simp add: to_numeric_no_string)
  from rm series_median_no_string[OF assms(2), of rd]
  have m: "rm = median (map cell_float (map raw_rating ?S))" by simp
  show ?thesis
    unfolding c unfolding rows m
    using n by (simp add: clean_row_def make_review_def to_numeric_no_string)
qed

theorem clean_data_rating_filled_witness:
  "clean_data sample_readings [scenario_row1, scenario_row2]
     = Inr [scenario_clean1, scenario_clean2] \<and>
   map raw_rating (surviving [scenario_row1, scenario_row2]) = [Num (Fin (9 / 2)), NaN] \<and>
   map rating [scenario_clean1, scenario_clean2] = [Some (Fin (9 / 2)), Some (Fin (9 / 2))]"
proof -
  have h: "clean_data sample_readings [scenario_row1, scenario_row2]
     = Inr [scenario_clean1, scenario_clean2]"
    by (rule scenario_cleaned)
  have r: "map raw_rating (surviving [scenario_row1, scenario_row2]) = [Num (Fin (9 / 2)), NaN]"
    by (simp add: eval_clean)
  have s: "\<not> list_ex is_str (map raw_rating (surviving [scenario_row1, scenario_row2]))"
    by (simp add: r is_str_def)
  from clean_data_rating_filled[OF h s] h r show ?thesis
    by (simp add: to_numeric_def fillna_def median_def)
qed

section \<open>Properties of the Feature Enricher\<close>

lemma pd_cut_rating:
  "pd_cut rating_bins rating_labels (Some (Fin x)) =
     (if x < 0 \<or> 5 < x then None
      else if x \<le> 19 / 10 then Some ''Very Poor''
      else if x \<le> 29 / 10 then Some ''Poor''
      else if x \<le> 39 / 10 then Some ''Average''
      else if x \<le> 44 / 10 then Some ''Good''
      else Some ''Excellent'')"
  by (auto simp: pd_cut_def rating_bins_def rating_labels_def searchsorted_left_def)

lemma pd_cut_rating_infinite:
  "pd_cut rating_bins rating_labels (Some MInf) = None"
  "pd_cut rating_bins rating_labels (Some PInf) = None"
  by (simp_all add: pd_cut_def rating_bins_def rating_labels_def searchsorted_left_def)

lemma pd_cut_age:
  "pd_cut age_bins age_labels (Some n) =
     (if n < 0 \<or> 100 < n then None
      else if n \<le> 17 then Some ''Teen''
      else if n \<le> 24 then Some ''Young Adult''
      else if n \<le> 34 then Some ''Adult''
      else if n \<le> 49 then Some ''Middle Age''
      else Some ''Senior'')"
  by (auto simp: pd_cut_def age_bins_def age_labels_def searchsorted_left_def)

lemma rating_category_labelled:
  assumes "Fin 0 \<le> x" and "x \<le> Fin 5"
  shows "pd_cut rating_bins rating_labels (Some x) \<in> Some ` set rating_labels"
proof -
  from assms obtain q where x: "x = Fin q" and q: "0 \<le> q" "q \<le> 5"
    by (cases x) auto
  show ?thesis
    unfolding x pd_cut_rating using q by (auto simp: rating_labels_def)
qed

lemma age_group_labelled:
  "0 \<le> n \<Longrightarrow> n \<le> 100 \<Longrightarrow> pd_cut age_bins age_labels (Some n) \<in> Some ` set age_labels"
  unfolding pd_cut_age by (auto simp: age_labels_def)

lemma add_features_columns:
  "rating (add_features r) = rating r"
  "user_age (add_features r) = user_age r"
  "app_name (add_features r) = app_name r"
  "app_category (add_features r) = app_category r"
  "review_date (add_features r) = review_date r"
  "rating_category (add_features r) = pd_cut rating_bins rating_labels (rating r)"
  "age_group (add_features r) = pd_cut age_bins age_labels (Some (user_age r))"
  by (simp_all add: add_features_def review.defs enriched.defs)

text \<open>
  Claim C5, as amended. In an enriched table, a rating in \<open>[1.0, 5.0]\<close> has one of the
  five rating labels, an age from 0 to 100 has one of the five age labels, and the
  rating 4.4 has the label \<open>Good\<close>. (As stated the claim fails: the age bins end at
  100, and an age above 100 has no bucket.)
\<close>

theorem bucketing_total:
  assumes "e \<in> set (add_custom_features df)"
  shows "(\<forall>x. rating e = Some x \<and> Fin 1 \<le> x \<and> x \<le> Fin 5
            \<longrightarrow> rating_category e \<in> Some ` set rating_labels) \<and>
         (0 \<le> user_age e \<and> user_age e \<le> 100 \<longrightarrow> age_group e \<in> Some ` set age_labels) \<and>
         (rating e = Some (Fin (44 / 10)) \<longrightarrow> rating_category e = Some ''Good'')"
proof -
  from assms obtain r where e: "e = add_features r"
    by (auto simp: add_custom_features_def)
  have 1: "rating_category e \<in> Some ` set rating_labels"
    if "rating e = Some x" "Fin 1 \<le> x" "x \<le> Fin 5" for x
  proof -
    have "Fin 0 \<le> Fin 1" by simp
    from this that(2) have "Fin 0 \<le> x" by (rule order_trans)
    with that(1,3) show ?thesis
      unfolding e add_features_columns by (simp add: rating_category_labelled)
  qed
  have 2: "age_group e \<in> Some ` set age_labels" if "0 \<le> user_age e" "user_age e \<le> 100"
    using that unfolding e add_features_columns
    by (simp add: age_group_labelled)
  have 3: "rating_category e = Some ''Good''" if "rating e = Some (Fin (44 / 10))"
    using that unfolding e add_features_columns
    by (simp add: pd_cut_rating)
  from 1 2 3 show ?thesis by blast
qed

theorem bucketing_total_witness:
  "add_features (scenario_clean1\<lparr>rating := Some (Fin (44 / 10))\<rparr>)
     \<in> set (add_custom_features [scenario_clean1\<lparr>rating := Some (Fin (44 / 10))\<rparr>, scenario_clean2]) \<and>
   rating (add_features (scenario_clean1\<lparr>rating := Some (Fin (44 / 10))\<rparr>)) = Some (Fin (44 / 10)) \<and>
   user_age (add_features (scenario_clean1\<lparr>rating := Some (Fin (44 / 10))\<rparr>)) = 30 \<and>
   rating_category (add_features (scenario_clean1\<lparr>rating := Some (Fin (44 / 10))\<rparr>)) = Some ''Good'' \<and>
   age_group (add_features (scenario_clean1\<lparr>rating := Some (Fin (44 / 10))\<rparr>)) \<in> Some ` set age_labels"
proof -
  let ?e = "add_features (scenario_clean1\<lparr>rating := Some (Fin (44 / 10))\<rparr>)"
  have m: "?e \<in> set (add_custom_features [scenario_clean1\<lparr>rating := Some (Fin (44 / 10))\<rparr>, scenario_clean2])"
    by (simp add: add_custom_features_def)
  have r: "rating ?e = Some (Fin (44 / 10))"
    by (simp add: add_features_columns)
  have a: "user_age ?e = 30"
    by (simp add: add_features_columns scenario_clean1_def)
  from bucketing_total[OF m] m r a show ?thesis by simp
qed

text \<open>Claim C5 as stated fails for the age 101.\<close>

theorem age_above_100_has_no_group:
  "age_group (add_features (scenario_clean1\<lparr>user_age := 101\<rparr>)) = None"
  by (simp add: add_features_columns pd_cut_age)

section \<open>Properties of the Filter Engine\<close>

text \<open>The successive selections of \<open>filter_dataframe\<close> keep exactly the rows that satisfy
  the conjunction of the constraints, in the order of the table.\<close>

lemma filter_dataframe_satisfies:
  "filter_dataframe df app category rating_range date_range
     = filter (satisfies app category rating_range date_range) df"
  unfolding filter_dataframe_def satisfies_def Let_def
  by (auto intro!: filter_cong)

lemma fold_min_le: "x \<in> set (d # ds) \<Longrightarrow> fold min ds d \<le> (x::date)"
  using Min_le[of "set (d # ds)" x] by (simp only: Min.set_eq_fold[symmetric] List.finite_set)

lemma le_fold_max: "x \<in> set (d # ds) \<Longrightarrow> (x::date) \<le> fold max ds d"
  using Max_ge[of "set (d # ds)" x] by (simp only: Max.set_eq_fold[symmetric] List.finite_set)

lemma known_dates_member:
  "review_date r = Some t \<Longrightarrow> r \<in> set df \<Longrightarrow> dt_date t \<in> set (known_dates df)"
proof (induction df)
  case Nil
  then show ?case by simp
next
  case (Cons a df)
  then show ?case
    by (cases "review_date a") (auto simp: known_dates_def)
qed

lemma widest_date_range_covers:
  assumes "widest_date_range df = Some dates" and "r \<in> set df"
  shows "length dates = 2 \<and> date_between (dates ! 0) (dates ! 1) (review_date r) = (review_date r \<noteq> None)"
proof -
  from assms(1) obtain d ds where k: "known_dates df = d # ds"
    and dates: "dates = [fold min ds d, fold max ds d]"
    by (auto simp: widest_date_range_def split: list.splits)
  show ?thesis
  proof (cases "review_date r")
    case None
    then show ?thesis by (simp add: dates date_between_def)
  next
    case (Some t)
    from known_dates_member[OF Some assms(2)] have "dt_date t \<in> set (d # ds)"
      by (simp add: k)
    from fold_min_le[OF this] le_fold_max[OF this] show ?thesis
      by (simp add: dates date_between_def Some)
  qed
qed

lemmas eval_view =
  add_custom_features_def add_features_columns satisfies_def rating_between_def date_between_def
  widest_rating_range_def widest_date_range_def known_dates_def
  scenario_clean1_def scenario_clean2_def

text \<open>
  Claim C6, as amended. With every widget at "no restriction" (\<open>All\<close>, \<open>All\<close>, the whole
  slider and the widest date range) the view holds exactly the rows whose rating lies
  on the slider and whose review date is known, in order; it is the enriched table
  itself when every row is such a row. (As stated the claim fails: a row with an unknown
  date is excluded by the widest date range.)
\<close>

theorem filter_no_restriction:
  assumes "widest_date_range df = Some dates"
  shows "filter_dataframe df ''All'' ''All'' widest_rating_range dates
           = filter (\<lambda>r. rating_between widest_rating_range (rating r) \<and> review_date r \<noteq> None) df \<and>
         (list_all (\<lambda>r. rating_between widest_rating_range (rating r) \<and> review_date r \<noteq> None) df
            \<longrightarrow> filter_dataframe df ''All'' ''All'' widest_rating_range dates = df)"
proof -
  have eq: "filter_dataframe df ''All'' ''All'' widest_rating_range dates
      = filter (\<lambda>r. rating_between widest_rating_range (rating r) \<and> review_date r \<noteq> None) df"
    unfolding filter_dataframe_satisfies
  proof (rule filter_cong[OF refl])
    fix r assume "r \<in> set df"
    from widest_date_range_covers[OF assms this]
    show "satisfies ''All'' ''All'' widest_rating_range dates r
        = (rating_between widest_rating_range (rating r) \<and> review_date r \<noteq> None)"
      by (simp add: satisfies_def)
  qed
  have "filter (\<lambda>r. rating_between widest_rating_range (rating r) \<and> review_date r \<noteq> None) df = df"
    if "list_all (\<lambda>r. rating_between widest_rating_range (rating r) \<and> review_date r \<noteq> None) df"
    using that by (simp add: list_all_iff)
  with eq show ?thesis by simp
qed

theorem filter_no_restriction_witness:
  "widest_date_range (add_custom_features [scenario_clean1]) = Some [(2025, 8, 1), (2025, 8, 1)] \<and>
   list_all (\<lambda>r. rating_between widest_rating_range (rating r) \<and> review_date r \<noteq> None)
     (add_custom_features [scenario_clean1]) \<and>
   filter_dataframe (add_custom_features [scenario_clean1]) ''All'' ''All'' widest_rating_range
     [(2025, 8, 1), (2025, 8, 1)] = add_custom_features [scenario_clean1]"
proof -
  have w: "widest_date_range (add_custom_features [scenario_clean1]) = Some [(2025, 8, 1), (2025, 8, 1)]"
    by (simp add: eval_view)
  have a: "list_all (\<lambda>r. rating_between widest_rating_range (rating r) \<and> review_date r \<noteq> None)
     (add_custom_features [scenario_clean1])"
    by (simp add: eval_view)
  from filter_no_restriction[OF w] w a show ?thesis by blast
qed

text \<open>Claim C6 as stated fails: the second row has an unknown date; the widest date
  range is the one day of the first row, and the view is the first row only.\<close>

theorem no_restriction_drops_unknown_date:
  "widest_date_range (add_custom_features [scenario_clean1, scenario_clean2])
     = Some [(2025, 8, 1), (2025, 8, 1)] \<and>
   filter_dataframe (add_custom_features [scenario_clean1, scenario_clean2]) ''All'' ''All''
     widest_rating_range [(2025, 8, 1), (2025, 8, 1)]
     = add_custom_features [scenario_clean1] \<and>
   add_custom_features [scenario_clean1]
     \<noteq> add_custom_features [scenario_clean1, scenario_clean2]"
  by (simp add: filter_dataframe_satisfies eval_view)

text \<open>
  Claim C7. Whenever the date range is active (it has both ends), every row of the
  enriched table whose review date is the unknown-date marker is excluded from the view.
\<close>

theorem date_range_excludes_unknown_dates:
  assumes "length date_range = 2" and "r \<in> set df" and "review_date r = None"
  shows "r \<notin> set (filter_dataframe df app category rating_range date_range)"
  using assms by (simp add: filter_dataframe_satisfies satisfies_def date_between_def)

theorem date_range_excludes_unknown_dates_witness:
  "length [(2025, 1, 1), (2025, 12, 31) :: date] = 2 \<and>
   add_features scenario_clean2 \<in> set (add_custom_features [scenario_clean1, scenario_clean2]) \<and>
   review_date (add_features scenario_clean2) = None \<and>
   add_features scenario_clean2
     \<notin> set (filter_dataframe (add_custom_features [scenario_clean1, scenario_clean2])
              ''All'' ''All'' widest_rating_range [(2025, 1, 1), (2025, 12, 31)])"
proof -
  have l: "length [(2025, 1, 1), (2025, 12, 31) :: date] = 2" by simp
  have m: "add_features scenario_clean2 \<in> set (add_custom_features [scenario_clean1, scenario_clean2])"
    by (simp add: add_custom_features_def)
  have n: "review_date (add_features scenario_clean2) = None"
    by (simp add: eval_view)
  from date_range_excludes_unknown_dates[OF l m n] l m n show ?thesis by blast
qed

text \<open>
  Claim C10. The view is a subsequence of the enriched table: its rows are rows of the
  table, unchanged, none more often than in the table, in the order of the table.
\<close>

theorem filter_dataframe_subseq:
  "subseq (filter_dataframe df app category rating_range date_range) df"
  by (simp add: filter_dataframe_satisfies)

section \<open>Properties of the report\<close>

text \<open>Without the guard of \<open>main\<close> the best category of an empty view would be a fault.\<close>

lemma idxmax_empty_view: "idxmax (groupby_mean []) = Inl ValueError"
  by (simp add: idxmax_def groupby_mean_def)

text \<open>
  Claim C8. When no row satisfies all constraints, \<open>filter_dataframe\<close> returns the empty
  view (it has no failing branch), and \<open>main\<close> reports "no data" and returns before
  the average rating, the best and the worst category are computed: no fault comes out
  of the empty view.
\<close>

theorem empty_view_is_handled:
  assumes "\<not> list_ex (satisfies app category rating_range date_range) df"
  shows "filter_dataframe df app category rating_range date_range = [] \<and>
         main_page df app category rating_range date_range = Inr NoData"
proof -
  from assms have "filter (satisfies app category rating_range date_range) df = []"
    by (simp add: list_ex_iff filter_empty_conv)
  then have "filter_dataframe df app category rating_range date_range = []"
    by (simp add: filter_dataframe_satisfies)
  then show ?thesis by (simp add: main_page_def)
qed

theorem empty_view_is_handled_witness:
  "\<not> list_ex (satisfies ''Chess'' ''All'' widest_rating_range [])
       (add_custom_features [scenario_clean1, scenario_clean2]) \<and>
   filter_dataframe (add_custom_features [scenario_clean1, scenario_clean2])
     ''Chess'' ''All'' widest_rating_range [] = [] \<and>
   main_page (add_custom_features [scenario_clean1, scenario_clean2])
     ''Chess'' ''All'' widest_rating_range [] = Inr NoData"
proof -
  have h: "\<not> list_ex (satisfies ''Chess'' ''All'' widest_rating_range [])
       (add_custom_features [scenario_clean1, scenario_clean2])"
    by (simp add: eval_view)
  from empty_view_is_handled[OF h] h show ?thesis by blast
qed

section \<open>Composition of constraints\<close>

lemma filter_by_satisfies:
  "filter_by view (app, category, rating_range, date_range)
     = filter (satisfies app category rating_range date_range) view"
  by (simp add: filter_dataframe_satisfies)

lemma restricts_no_date_row:
  assumes "restricts_no_date dates view" and "r \<in> set view" and "length dates = 2"
  shows "date_between (dates ! 0) (dates ! 1) (review_date r) = (review_date r \<noteq> None)"
proof (cases "review_date r")
  case None
  then show ?thesis by (simp add: date_between_def)
next
  case (Some t)
  from known_dates_member[OF Some assms(2)] assms(1,3)
  show ?thesis by (simp add: restricts_no_date_def list_all_iff date_between_def Some)
qed

lemma date_between_known: "date_between s e v \<Longrightarrow> v \<noteq> None"
  by (cases v) (simp_all add: date_between_def)

lemma rating_between_on_slider:
  assumes "fst widest_rating_range \<le> lo" and "hi \<le> snd widest_rating_range"
      and "rating_between (lo, hi) v"
  shows "rating_between widest_rating_range v"
proof (cases v)
  case None
  with assms(3) show ?thesis by (simp add: rating_between_def)
next
  case (Some q)
  with assms(3) have b: "Fin lo \<le> q" "q \<le> Fin hi" by (simp_all add: rating_between_def)
  from assms(1) have "Fin (fst widest_rating_range) \<le> Fin lo" by simp
  from this b(1) have 1: "Fin (fst widest_rating_range) \<le> q" by (rule order_trans)
  from assms(2) have "Fin hi \<le> Fin (snd widest_rating_range)" by simp
  with b(2) have 2: "q \<le> Fin (snd widest_rating_range)" by (rule order_trans)
  from 1 2 show ?thesis by (simp add: rating_between_def Some)
qed

text \<open>
  Claim C9, as amended. For two constraints of different widgets, where a rating range
  is one the slider can deliver (inside \<open>[1.0, 5.0]\<close>), filtering a view with both
  together gives the same view as filtering with the first alone and then filtering the
  result with the second alone. "Alone" leaves the other widgets at no restriction.
  (As stated the claim fails: a rating range that reaches below the slider keeps,
  together with an app, a row that the slider of the app-only filter drops.)
\<close>

theorem filter_narrowing:
  assumes "\<not> same_widget c1 c2" and "on_slider c1" and "on_slider c2"
      and "restricts_no_date dates view"
  shows "filter_by view (constrain c2 (constrain c1 (no_restriction dates)))
           = filter_by (filter_by view (constrain c1 (no_restriction dates)))
               (constrain c2 (no_restriction dates))"
proof -
  have d: "date_between (dates ! 0) (dates ! Suc 0) (review_date r)"
    if "date_between s e (review_date r)" "r \<in> set view" "length dates = 2" for r s e
    using restricts_no_date_row[OF assms(4) that(2,3)] date_between_known[OF that(1)] by simp
  show ?thesis
    using assms(1-3)
    by (cases c1; cases c2)
       (auto simp: no_restriction_def filter_dataframe_satisfies satisfies_def
             intro!: filter_cong intro: d dest: rating_between_on_slider)
qed

theorem filter_narrowing_witness:
  "\<not> same_widget (AppName ''MapGo'') (RatingRange 4 5) \<and>
   on_slider (AppName ''MapGo'') \<and>
   on_slider (RatingRange 4 5) \<and>
   restricts_no_date [(2025, 8, 1), (2025, 8, 1)]
     (add_custom_features [scenario_clean1, scenario_clean2]) \<and>
   filter_by (add_custom_features [scenario_clean1, scenario_clean2])
       (constrain (RatingRange 4 5)
          (constrain (AppName ''MapGo'') (no_restriction [(2025, 8, 1), (2025, 8, 1)])))
     = filter_by
         (filter_by (add_custom_features [scenario_clean1, scenario_clean2])
            (constrain (AppName ''MapGo'') (no_restriction [(2025, 8, 1), (2025, 8, 1)])))
         (constrain (RatingRange 4 5) (no_restriction [(2025, 8, 1), (2025, 8, 1)]))"
proof -
  have s: "\<not> same_widget (AppName ''MapGo'') (RatingRange 4 5)" by simp
  have a: "on_slider (AppName ''MapGo'')" by simp
  have b: "on_slider (RatingRange 4 5)" by (simp add: widest_rating_range_def)
  have d: "restricts_no_date [(2025, 8, 1), (2025, 8, 1)]
     (add_custom_features [scenario_clean1, scenario_clean2])"
    by (simp add: restricts_no_date_def eval_view)
  from filter_narrowing[OF s a b d] s a b d show ?thesis by blast
qed

text \<open>Claim C9 as stated fails: the row is rated 0.5. The rating range \<open>[0, 5]\<close> together
  with the app keeps it; the rating range alone keeps it, and the app alone, with the
  slider at \<open>(1.0, 5.0)\<close>, then drops it.\<close>

theorem narrowing_fails_off_slider:
  "\<not> same_widget (RatingRange 0 5) (AppName ''MapGo'') \<and>
   restricts_no_date [] (add_custom_features [scenario_clean1\<lparr>rating := Some (Fin (1 / 2))\<rparr>]) \<and>
   filter_by (add_custom_features [scenario_clean1\<lparr>rating := Some (Fin (1 / 2))\<rparr>])
       (constrain (AppName ''MapGo'') (constrain (RatingRange 0 5) (no_restriction [])))
     = add_custom_features [scenario_clean1\<lparr>rating := Some (Fin (1 / 2))\<rparr>] \<and>
   filter_by
       (filter_by (add_custom_features [scenario_clean1\<lparr>rating := Some (Fin (1 / 2))\<rparr>])
          (constrain (RatingRange 0 5) (no_restriction [])))
       (constrain (AppName ''MapGo'') (no_restriction []))
     = []"
  by (simp add: no_restriction_def restricts_no_date_def filter_dataframe_satisfies eval_view)


end
